theory Spec2Isabelle
  imports Main "HOL-Library.Word" "HOL-Library.Sublist"
begin

section \<open>Transport layer of the network package: local (virtual) and TCP transports\<close>

text \<open>
  The development embeds the two transport files of the \<open>network\<close> package: the
  in-process transport (\<open>LocalContext\<close>, \<open>LocalConn\<close>, \<open>connQueue\<close>,
  \<open>LocalListener\<close>, \<open>LocalHost\<close>) and the socket transport (\<open>TCPConn\<close>,
  \<open>TCPListener\<close>, \<open>TCPHost\<close>).

  Every Go method is a function that takes the state it reads and returns the state it
  leaves. A call can end in three ways, and the result type keeps them apart: it returns
  (\<open>Returns\<close>), it parks forever on a condition variable or a channel unless another
  goroutine wakes it (\<open>Blocks\<close>), or it panics (\<open>Panics\<close>).
\<close>

subsection \<open>Addresses, packets, errors\<close>

datatype ConnType = PlainTCP | Local

text \<open>
  Modelled from the spec: the \<open>Address\<close> type is declared outside the shown files.
  The spec gives it as a connection-type tag plus a location string, immutable and
  compared by value; \<open>ConnType()\<close> and \<open>NetworkAddress()\<close> read the two parts.
\<close>

record Address =
  connType :: ConnType
  location :: string

definition Address_ConnType :: "Address \<Rightarrow> ConnType" where
  "Address_ConnType a = connType a"

definition NetworkAddress :: "Address \<Rightarrow> string" where
  "NetworkAddress a = location a"

definition NewAddress :: "ConnType \<Rightarrow> string \<Rightarrow> Address" where
  "NewAddress t s = \<lparr>connType = t, location = s\<rparr>"

definition NewLocalAddress :: "string \<Rightarrow> Address" where
  "NewLocalAddress s = NewAddress Local s"

text \<open>
  A \<open>Body\<close> is a Go interface value: it holds either a value or a pointer to one.
  The payload type \<open>'b\<close> and the type tag \<open>'t\<close> stay abstract: the transport never
  looks inside them.
\<close>

datatype 'b Body = Val 'b | Ptr 'b

text \<open>
  The \<open>Packet\<close> struct is declared outside the shown files; the three fields are the
  ones the shown code writes (\<open>MsgType\<close>, \<open>Msg\<close>, \<open>From\<close>). A \<open>From\<close> that was
  never assigned (Go's zero value) is \<open>None\<close>.
\<close>

record ('t, 'b) Packet =
  MsgType :: 't
  Msg :: "'b Body"
  From :: "Address option"

text \<open>
  An error of the \<open>net\<close> and \<open>io\<close> libraries, as far as \<open>handleError\<close> looks at
  it: its message, whether it is the value \<open>io.EOF\<close>, and, when it implements
  \<open>net.Error\<close>, what \<open>Temporary()\<close> and \<open>Timeout()\<close> answer.
\<close>

record net_error =
  message :: string
  isEOF :: bool
  netError :: "(bool \<times> bool) option"

text \<open>
  The error values of the package. The first six are the package's sentinel errors;
  \<open>ErrRaw\<close> is a library error handed on as it is; the others stand for the errors
  the shown code builds with \<open>errors.New\<close> and \<open>fmt.Errorf\<close>, with the values
  formatted into the message as arguments.
\<close>

datatype error =
    ErrClosed
  | ErrCanceled
  | ErrEOF
  | ErrTemp
  | ErrTimeout
  | ErrUnknown
  | ErrNotListening Address Address
  | ErrWrongAddressType
  | ErrAlreadyListening Address
  | ErrNonLocalAddress
  | ErrCouldNotConnect string "net_error option"
  | ErrOpeningListener net_error
  | ErrReceived string
  | ErrUnmarshal string string
  | ErrConverting string
  | ErrMarshaling string
  | ErrCantHandle ConnType
  | ErrRaw net_error

datatype 'a outcome = Returns 'a | Blocks | Panics string

subsection \<open>connQueue\<close>

record ('t, 'b) connQueue =
  queue :: "('t, 'b) Packet list"
  isClosed :: bool

definition newConnQueue :: "('t, 'b) connQueue" where
  "newConnQueue = \<lparr>queue = [], isClosed = False\<rparr>"

definition connQueue_Push :: "('t, 'b) Packet \<Rightarrow> ('t, 'b) connQueue \<Rightarrow> ('t, 'b) connQueue" where
  "connQueue_Push p c = (if isClosed c then c else c\<lparr>queue := queue c @ [p]\<rparr>)"

text \<open>
  \<open>Pop\<close> waits on the condition variable while the queue is empty and open. With no
  other goroutine running this is \<open>Blocks\<close>. An error return carries the package's
  empty packet beside the error; the model keeps the error (\<open>Inl\<close>).
\<close>

definition connQueue_Pop ::
  "('t, 'b) connQueue \<Rightarrow> (error + ('t, 'b) Packet) outcome \<times> ('t, 'b) connQueue" where
  "connQueue_Pop c =
     (if queue c = [] then
        (if isClosed c then (Returns (Inl ErrClosed), c) else (Blocks, c))
      else if isClosed c then (Returns (Inl ErrClosed), c)
      else (Returns (Inr (hd (queue c))), c\<lparr>queue := tl (queue c)\<rparr>))"

definition connQueue_Close :: "('t, 'b) connQueue \<Rightarrow> ('t, 'b) connQueue" where
  "connQueue_Close c = c\<lparr>isClosed := True\<rparr>"

subsection \<open>LocalContext: the registry of the virtual network\<close>

text \<open>
  A \<open>*connQueue\<close> is a reference into the store of queues (\<open>heap\<close>): the context's
  map and the connection that owns the queue hold the same reference. An accept
  callback (\<open>func(Conn)\<close>) is known by its identity only.
\<close>

type_synonym qref = nat
type_synonym callback = nat

record endpoint =
  addr :: Address
  uid :: "64 word"

record LocalContext =
  queues :: "endpoint \<rightharpoonup> qref"
  listening :: "Address \<rightharpoonup> callback"
  baseUid :: "64 word"

record LocalConn =
  local :: endpoint
  remote :: endpoint
  connQueue :: qref

text \<open>
  The state the virtual transport works on: the context, the store of queues, and the
  goroutines started with \<open>go fn(incoming)\<close>, oldest first.
\<close>

record ('t, 'b) world =
  ctx :: LocalContext
  heap :: "('t, 'b) connQueue list"
  goroutines :: "(callback \<times> LocalConn) list"

definition NewLocalContext :: LocalContext where
  "NewLocalContext = \<lparr>queues = Map.empty, listening = Map.empty, baseUid = 0\<rparr>"

definition NewWorld :: "('t, 'b) world" where
  "NewWorld = \<lparr>ctx = NewLocalContext, heap = [], goroutines = []\<rparr>"

definition LocalContext_IsListening :: "Address \<Rightarrow> ('t, 'b) world \<Rightarrow> bool" where
  "LocalContext_IsListening a w = (LocalContext.listening (ctx w) a \<noteq> None)"

definition LocalContext_Listening :: "Address \<Rightarrow> callback \<Rightarrow> ('t, 'b) world \<Rightarrow> ('t, 'b) world" where
  "LocalContext_Listening a fn w =
     w\<lparr>ctx := (ctx w)\<lparr>LocalContext.listening := (LocalContext.listening (ctx w))(a \<mapsto> fn)\<rparr>\<rparr>"

definition LocalContext_StopListening :: "Address \<Rightarrow> ('t, 'b) world \<Rightarrow> ('t, 'b) world" where
  "LocalContext_StopListening a w =
     w\<lparr>ctx := (ctx w)\<lparr>LocalContext.listening := (LocalContext.listening (ctx w))(a := None)\<rparr>\<rparr>"

definition newLocalConn ::
  "endpoint \<Rightarrow> endpoint \<Rightarrow> ('t, 'b) connQueue list \<Rightarrow> LocalConn \<times> ('t, 'b) connQueue list" where
  "newLocalConn l r h =
     (\<lparr>local = l, remote = r, connQueue = length h\<rparr>, h @ [newConnQueue])"

definition LocalContext_Connect ::
  "Address \<Rightarrow> Address \<Rightarrow> ('t, 'b) world \<Rightarrow> (error + LocalConn) \<times> ('t, 'b) world" where
  "LocalContext_Connect l r w =
     (case LocalContext.listening (ctx w) r of
        None \<Rightarrow> (Inl (ErrNotListening l r), w)
      | Some fn \<Rightarrow>
          (let outEndpoint = \<lparr>addr = l, uid = baseUid (ctx w)\<rparr>;
               uid1 = baseUid (ctx w) + 1;
               incEndpoint = \<lparr>addr = r, uid = uid1\<rparr>;
               uid2 = uid1 + 1;
               (outgoing, h1) = newLocalConn outEndpoint incEndpoint (heap w);
               (incoming, h2) = newLocalConn incEndpoint outEndpoint h1;
               qs = (queues (ctx w))(outEndpoint \<mapsto> connQueue outgoing,
                                     incEndpoint \<mapsto> connQueue incoming)
           in (Inr outgoing,
               w\<lparr>ctx := (ctx w)\<lparr>queues := qs, baseUid := uid2\<rparr>,
                 heap := h2,
                 goroutines := goroutines w @ [(fn, incoming)]\<rparr>)))"

definition LocalContext_Send ::
  "endpoint \<Rightarrow> ('t, 'b) Packet \<Rightarrow> ('t, 'b) world \<Rightarrow> error option \<times> ('t, 'b) world" where
  "LocalContext_Send e nm w =
     (case queues (ctx w) e of
        None \<Rightarrow> (Some ErrClosed, w)
      | Some q \<Rightarrow> (None, w\<lparr>heap := (heap w)[q := connQueue_Push nm (heap w ! q)]\<rparr>))"

definition LocalContext_Close :: "LocalConn \<Rightarrow> ('t, 'b) world \<Rightarrow> ('t, 'b) world" where
  "LocalContext_Close cc w =
     (let qs1 = (queues (ctx w))(local cc := None) in
      case qs1 (remote cc) of
        None \<Rightarrow> w\<lparr>ctx := (ctx w)\<lparr>queues := qs1\<rparr>\<rparr>
      | Some rq \<Rightarrow>
          w\<lparr>ctx := (ctx w)\<lparr>queues := qs1(remote cc := None)\<rparr>,
            heap := (heap w)[rq := connQueue_Close (heap w ! rq)]\<rparr>)"

subsection \<open>LocalConn\<close>

text \<open>
  A \<open>context.Context\<close> as far as the claims speak of it: cancelled or not.
\<close>

datatype Context = Background | Cancelled

definition NewLocalConnWithContext ::
  "Address \<Rightarrow> Address \<Rightarrow> ('t, 'b) world \<Rightarrow> (error + LocalConn) \<times> ('t, 'b) world" where
  "NewLocalConnWithContext l r w = LocalContext_Connect l r w"

text \<open>
  \<open>Send\<close> replaces a pointer by the value it points to, asks \<open>TypeFromData\<close> (declared
  outside the shown files, here the parameter \<open>tfd\<close>) for the type tag and builds the
  packet from these two fields; \<open>From\<close> is not assigned.
\<close>

definition LocalConn_Send ::
  "('b Body \<Rightarrow> 't) \<Rightarrow> Context \<Rightarrow> 'b Body \<Rightarrow> LocalConn \<Rightarrow> ('t, 'b) world
     \<Rightarrow> error option \<times> ('t, 'b) world" where
  "LocalConn_Send tfd cx msg cc w =
     (let body = (case msg of Ptr v \<Rightarrow> Val v | Val v \<Rightarrow> Val v);
          typ = tfd body;
          nm = \<lparr>MsgType = typ, Msg = body, From = None\<rparr>
      in LocalContext_Send (remote cc) nm w)"

definition LocalConn_Receive ::
  "Context \<Rightarrow> LocalConn \<Rightarrow> ('t, 'b) world
     \<Rightarrow> (error + ('t, 'b) Packet) outcome \<times> ('t, 'b) world" where
  "LocalConn_Receive cx cc w =
     (let (r, q) = connQueue_Pop (heap w ! connQueue cc)
      in (r, w\<lparr>heap := (heap w)[connQueue cc := q]\<rparr>))"

definition LocalConn_Local :: "LocalConn \<Rightarrow> Address" where
  "LocalConn_Local cc = addr (local cc)"

definition LocalConn_Remote :: "LocalConn \<Rightarrow> Address" where
  "LocalConn_Remote cc = addr (remote cc)"

definition LocalConn_Close :: "LocalConn \<Rightarrow> ('t, 'b) world \<Rightarrow> error option \<times> ('t, 'b) world" where
  "LocalConn_Close cc w =
     (None, LocalContext_Close cc
              (w\<lparr>heap := (heap w)[connQueue cc := connQueue_Close (heap w ! connQueue cc)]\<rparr>))"

definition LocalConn_Rx :: "LocalConn \<Rightarrow> 64 word" where
  "LocalConn_Rx cc = 0"

definition LocalConn_Tx :: "LocalConn \<Rightarrow> 64 word" where
  "LocalConn_Tx cc = 0"

definition LocalConn_Type :: "LocalConn \<Rightarrow> ConnType" where
  "LocalConn_Type cc = Local"

subsection \<open>Channels, sleeping\<close>

text \<open>
  The \<open>quit\<close> channels carry no value: they are only ever closed. Closing a closed
  channel panics in Go.
\<close>

datatype chan = ChanOpen | ChanClosed

definition close_chan :: "chan \<Rightarrow> chan outcome" where
  "close_chan c = (case c of ChanOpen \<Rightarrow> Returns ChanClosed
                          | ChanClosed \<Rightarrow> Panics ''close of closed channel'')"

text \<open>
  What a retry loop does is recorded as a list of events, oldest first: an attempt to
  connect, dial or bind, and a call of \<open>time.Sleep\<close> with its duration.
\<close>

datatype event = Attempt | Sleep nat

subsection \<open>LocalListener\<close>

text \<open>
  Go's zero value of an \<open>Address\<close>, which the \<open>addr\<close> field of a listener holds
  until \<open>bind\<close> assigns it. Modelled from the spec: with the \<open>Address\<close> of the spec
  this is the first connection type and the empty location.
\<close>

definition Address_zero :: Address where
  "Address_zero = \<lparr>connType = PlainTCP, location = []\<rparr>"

record LocalListener =
  addr :: Address
  listening :: bool
  quit :: chan

definition LocalListener_bind ::
  "Address \<Rightarrow> LocalListener \<Rightarrow> ('t, 'b) world
     \<Rightarrow> error option \<times> LocalListener \<times> ('t, 'b) world" where
  "LocalListener_bind a ll w =
     (if Address_ConnType a \<noteq> Local then (Some ErrWrongAddressType, ll, w)
      else if LocalContext_IsListening a w then (Some (ErrAlreadyListening a), ll, w)
      else (None, ll\<lparr>LocalListener.addr := a\<rparr>, w))"

definition NewLocalListenerWithContext ::
  "Address \<Rightarrow> ('t, 'b) world \<Rightarrow> error option \<times> LocalListener \<times> ('t, 'b) world" where
  "NewLocalListenerWithContext a w =
     LocalListener_bind a
       \<lparr>LocalListener.addr = Address_zero, listening = False, quit = ChanOpen\<rparr> w"

text \<open>
  \<open>Listen\<close> registers the callback and then waits on \<open>quit\<close>: the call \<open>Blocks\<close>
  in the state it has built, until \<open>Stop\<close> closes the channel.
\<close>

definition LocalListener_Listen ::
  "callback \<Rightarrow> LocalListener \<Rightarrow> ('t, 'b) world
     \<Rightarrow> error option outcome \<times> LocalListener \<times> ('t, 'b) world" where
  "LocalListener_Listen fn ll w =
     (Blocks,
      ll\<lparr>quit := ChanOpen, LocalListener.listening := True\<rparr>,
      LocalContext_Listening (LocalListener.addr ll) fn w)"

definition LocalListener_Stop ::
  "LocalListener \<Rightarrow> ('t, 'b) world
     \<Rightarrow> error option outcome \<times> LocalListener \<times> ('t, 'b) world" where
  "LocalListener_Stop ll w =
     (let w1 = LocalContext_StopListening (LocalListener.addr ll) w in
      if LocalListener.listening ll then
        (case close_chan (quit ll) of
           Returns c \<Rightarrow> (Returns None, ll\<lparr>quit := c, LocalListener.listening := False\<rparr>, w1)
         | Blocks \<Rightarrow> (Blocks, ll, w1)
         | Panics m \<Rightarrow> (Panics m, ll, w1))
      else (Returns None, ll\<lparr>LocalListener.listening := False\<rparr>, w1))"

definition LocalListener_Address :: "LocalListener \<Rightarrow> Address" where
  "LocalListener_Address ll = LocalListener.addr ll"

definition LocalListener_Listening :: "LocalListener \<Rightarrow> bool" where
  "LocalListener_Listening ll = LocalListener.listening ll"

subsection \<open>LocalHost\<close>

text \<open>
  The constants \<open>MaxRetryConnect\<close>, \<open>MaxRetry\<close> and \<open>WaitRetry\<close> are declared
  outside the shown files: the functions that use them take them as parameters (a Go
  \<open>int\<close> and a duration).
\<close>

record LocalHost =
  addr :: Address
  listener :: LocalListener

definition NewLocalHostWithContext ::
  "Address \<Rightarrow> ('t, 'b) world \<Rightarrow> error option \<times> LocalHost \<times> ('t, 'b) world" where
  "NewLocalHostWithContext a w =
     (let (err, ll, w1) = NewLocalListenerWithContext a w
      in (err, \<lparr>LocalHost.addr = a, listener = ll\<rparr>, w1))"

text \<open>
  The loop of \<open>LocalHost.Connect\<close>, from index \<open>i\<close> with the last error seen so far
  (\<open>None\<close> is Go's nil error). It returns the connection or the final error, the
  state, and the events of the iterations it ran.
\<close>

function LocalHost_Connect_loop ::
  "int \<Rightarrow> nat \<Rightarrow> LocalHost \<Rightarrow> Address \<Rightarrow> int \<Rightarrow> error option \<Rightarrow> ('t, 'b) world
     \<Rightarrow> (error option \<times> LocalConn option) \<times> ('t, 'b) world \<times> event list" where
  "LocalHost_Connect_loop MaxRetryConnect WaitRetry lh a i finalErr w =
     (if i < MaxRetryConnect then
        (case NewLocalConnWithContext (LocalHost.addr lh) a w of
           (Inr c, w1) \<Rightarrow> ((None, Some c), w1, [Attempt])
         | (Inl err, w1) \<Rightarrow>
             (let (r, w2, evs) =
                    LocalHost_Connect_loop MaxRetryConnect WaitRetry lh a (i + 1) (Some err) w1
              in (r, w2, Attempt # Sleep WaitRetry # evs)))
      else ((finalErr, None), w, []))"
  by pat_completeness auto
termination
  by (relation "measure (\<lambda>(m, ws, lh, a, i, e, w). nat (m - i))") auto

definition LocalHost_Connect ::
  "int \<Rightarrow> nat \<Rightarrow> LocalHost \<Rightarrow> Address \<Rightarrow> ('t, 'b) world
     \<Rightarrow> (error option \<times> LocalConn option) \<times> ('t, 'b) world \<times> event list" where
  "LocalHost_Connect MaxRetryConnect WaitRetry lh a w =
     (if Address_ConnType a \<noteq> Local then ((Some ErrNonLocalAddress, None), w, [])
      else LocalHost_Connect_loop MaxRetryConnect WaitRetry lh a 0 None w)"

subsection \<open>Sockets\<close>

type_synonym byte = "8 word"

text \<open>
  Modelled from the spec: \<open>Size\<close>, the type of the length prefix, is declared outside
  the shown files. The spec gives it as a fixed-width unsigned integer; it is taken
  to be 32 bits wide.
\<close>

type_synonym Size = "32 word"

text \<open>
  \<open>globalOrder\<close>, the byte order of the prefix, is declared outside the shown files
  too: the functions take it as a parameter.
\<close>

datatype ByteOrder = BigEndian | LittleEndian

definition PutSize :: "ByteOrder \<Rightarrow> Size \<Rightarrow> byte list" where
  "PutSize order n =
     (let be = [ucast (drop_bit 24 n), ucast (drop_bit 16 n), ucast (drop_bit 8 n), ucast n]
      in case order of BigEndian \<Rightarrow> be | LittleEndian \<Rightarrow> rev be)"

definition GetSize :: "ByteOrder \<Rightarrow> byte list \<Rightarrow> Size" where
  "GetSize order bs =
     foldl (\<lambda>acc b. acc * 256 + ucast b) 0
       (case order of BigEndian \<Rightarrow> bs | LittleEndian \<Rightarrow> rev bs)"

text \<open>
  A \<open>net.Conn\<close>. Outgoing: \<open>written\<close> holds the slices that \<open>Write\<close> calls have
  put on the wire, oldest first; \<open>wfail k\<close> says whether the \<open>k\<close>-th \<open>Write\<close> on
  this connection fails, and with which error; \<open>wcount\<close> counts the calls made. A
  \<open>Write\<close> that returns no error has taken the whole slice, as \<open>io.Writer\<close>
  demands; a failing one is taken to have put nothing on the wire. Incoming:
  \<open>inbuf\<close> holds the bytes that have arrived and were not read yet, \<open>inerr\<close> what a
  read finds once they are used up: an error, or nothing, and then the read waits.
\<close>

record netConn =
  written :: "byte list list"
  wfail :: "nat \<Rightarrow> net_error option"
  wcount :: nat
  inbuf :: "byte list"
  inerr :: "net_error option"
  closeErr :: "net_error option"

datatype 'a io = IoOk 'a | IoErr net_error | IoBlock

definition netConn_Write :: "byte list \<Rightarrow> netConn \<Rightarrow> nat \<times> net_error option \<times> netConn" where
  "netConn_Write p c =
     (case wfail c (wcount c) of
        None \<Rightarrow> (length p, None, c\<lparr>written := written c @ [p], wcount := wcount c + 1\<rparr>)
      | Some e \<Rightarrow> (0, Some e, c\<lparr>wcount := wcount c + 1\<rparr>))"

text \<open>\<open>Read(b)\<close> with \<open>len(b) = k\<close>: as many of the arrived bytes as fit.\<close>

definition netConn_Read :: "nat \<Rightarrow> netConn \<Rightarrow> (byte list) io \<times> netConn" where
  "netConn_Read k c =
     (if inbuf c = [] then
        (case inerr c of None \<Rightarrow> (IoBlock, c) | Some e \<Rightarrow> (IoErr e, c))
      else (IoOk (take (min k (length (inbuf c))) (inbuf c)),
            c\<lparr>inbuf := drop (min k (length (inbuf c))) (inbuf c)\<rparr>))"

definition binary_Write :: "ByteOrder \<Rightarrow> Size \<Rightarrow> netConn \<Rightarrow> net_error option \<times> netConn" where
  "binary_Write order n c = (case netConn_Write (PutSize order n) c of (k, err, c1) \<Rightarrow> (err, c1))"

definition ErrUnexpectedEOF :: net_error where
  "ErrUnexpectedEOF = \<lparr>message = ''unexpected EOF'', isEOF = False, netError = None\<rparr>"

text \<open>
  \<open>binary.Read\<close> of a \<open>Size\<close> reads exactly four bytes (\<open>io.ReadFull\<close>): an end of
  file after some but not all of them is \<open>io.ErrUnexpectedEOF\<close>.
\<close>

definition binary_Read :: "ByteOrder \<Rightarrow> netConn \<Rightarrow> Size io \<times> netConn" where
  "binary_Read order c =
     (if 4 \<le> length (inbuf c) then
        (IoOk (GetSize order (take 4 (inbuf c))), c\<lparr>inbuf := drop 4 (inbuf c)\<rparr>)
      else (case inerr c of
              None \<Rightarrow> (IoBlock, c)
            | Some e \<Rightarrow>
                (IoErr (if inbuf c \<noteq> [] \<and> isEOF e then ErrUnexpectedEOF else e),
                 c\<lparr>inbuf := []\<rparr>)))"

subsection \<open>handleError\<close>

fun strings_Contains :: "string \<Rightarrow> string \<Rightarrow> bool" where
  "strings_Contains [] sub = (sub = [])"
| "strings_Contains (c # cs) sub = (prefix sub (c # cs) \<or> strings_Contains cs sub)"

definition handleError :: "net_error \<Rightarrow> error" where
  "handleError err =
     (if strings_Contains (message err) ''use of closed''
         \<or> strings_Contains (message err) ''broken pipe'' then ErrClosed
      else if strings_Contains (message err) ''canceled'' then ErrCanceled
      else if isEOF err \<or> strings_Contains (message err) ''EOF'' then ErrEOF
      else (case netError err of
              None \<Rightarrow> ErrUnknown
            | Some (temporary, timeout) \<Rightarrow>
                if temporary then ErrTemp
                else if timeout then ErrTimeout
                else ErrUnknown))"

subsection \<open>TCPConn\<close>

record TCPConn =
  endpoint :: string
  conn :: netConn
  closed :: bool
  bRx :: "64 word"
  bTx :: "64 word"

definition maxChunkSize :: Size where
  "maxChunkSize = 1400"

definition addReadBytes :: "64 word \<Rightarrow> TCPConn \<Rightarrow> TCPConn" where
  "addReadBytes b c = c\<lparr>bRx := bRx c + b\<rparr>"

definition addWrittenBytes :: "64 word \<Rightarrow> TCPConn \<Rightarrow> TCPConn" where
  "addWrittenBytes b c = c\<lparr>bTx := bTx c + b\<rparr>"

definition TCPConn_Rx :: "TCPConn \<Rightarrow> 64 word" where
  "TCPConn_Rx c = bRx c"

definition TCPConn_Tx :: "TCPConn \<Rightarrow> 64 word" where
  "TCPConn_Tx c = bTx c"

definition TCPConn_Remote :: "TCPConn \<Rightarrow> string" where
  "TCPConn_Remote c = endpoint c"

definition TCPConn_Type :: "TCPConn \<Rightarrow> ConnType" where
  "TCPConn_Type c = PlainTCP"

text \<open>
  The chunk loop of \<open>send\<close>, with the socket as its state. The slice \<open>b[:length]\<close>
  panics in Go when \<open>length\<close> is beyond the slice.
\<close>

function send_loop ::
  "Size \<Rightarrow> Size \<Rightarrow> byte list \<Rightarrow> netConn \<Rightarrow> error option outcome \<times> netConn" where
  "send_loop packetSize sent b k =
     (if sent < packetSize then
        (let length0 = packetSize - sent;
             len = (if length0 > maxChunkSize then maxChunkSize else length0)
         in if length b < unat len then (Panics ''slice bounds out of range'', k)
            else (case netConn_Write (take (unat len) b) k of
                    (n, Some err, k1) \<Rightarrow> (Returns (Some (handleError err)), k1)
                  | (n, None, k1) \<Rightarrow> send_loop packetSize (sent + of_nat n) (drop n b) k1))
      else (Returns None, k))"
  by pat_completeness auto
termination
proof (relation "measure (\<lambda>(packetSize, sent, b, k). unat (packetSize - sent))", goal_cases)
  case 1
  show ?case by simp
next
  case (2 packetSize sent b k length0 len n y err k1)
  from 2(5,6,7) have "n = length (take (unat len) b)"
    by (auto simp: netConn_Write_def split: option.splits)
  with 2(4) have n: "n = unat len" by simp
  from 2(1) have pos: "0 < unat (packetSize - sent)"
    by (simp add: unat_gt_0)
  have le: "len \<le> packetSize - sent"
    using 2(2,3) by (auto simp: not_less)
  have lenpos: "0 < unat len"
    using 2(2,3) pos by (auto simp: maxChunkSize_def)
  have eq: "packetSize - (sent + of_nat n) = (packetSize - sent) - len"
    by (simp add: n)
  have "unat ((packetSize - sent) - len) = unat (packetSize - sent) - unat len"
    using le by (rule unat_sub)
  then have "unat (packetSize - (sent + of_nat n)) = unat (packetSize - sent) - unat len"
    by (simp only: eq)
  with lenpos pos show ?case by simp
qed

definition TCPConn_send :: "ByteOrder \<Rightarrow> byte list \<Rightarrow> TCPConn \<Rightarrow> error option outcome \<times> TCPConn" where
  "TCPConn_send globalOrder b c =
     (let packetSize = (of_nat (length b) :: Size) in
      case binary_Write globalOrder packetSize (conn c) of
        (Some err, k) \<Rightarrow> (Returns (Some (ErrRaw err)), c\<lparr>conn := k\<rparr>)
      | (None, k) \<Rightarrow>
          (case send_loop packetSize 0 b k of
             (Returns None, k1) \<Rightarrow>
               (Returns None, addWrittenBytes (ucast packetSize) (c\<lparr>conn := k1\<rparr>))
           | (r, k1) \<Rightarrow> (r, c\<lparr>conn := k1\<rparr>)))"

text \<open>
  \<open>NewNetworkMessage\<close> and \<open>MarshalBinary\<close> are declared outside the shown files:
  \<open>Send\<close> takes them as parameters, each giving a packet or the bytes, or the message
  of its error.
\<close>

definition TCPConn_Send ::
  "ByteOrder \<Rightarrow> ('b Body \<Rightarrow> string + ('t, 'b) Packet) \<Rightarrow> (('t, 'b) Packet \<Rightarrow> string + byte list)
     \<Rightarrow> Context \<Rightarrow> 'b Body \<Rightarrow> TCPConn \<Rightarrow> error option outcome \<times> TCPConn" where
  "TCPConn_Send globalOrder NewNetworkMessage MarshalBinary cx obj c =
     (case NewNetworkMessage obj of
        Inl m \<Rightarrow> (Returns (Some (ErrConverting m)), c)
      | Inr am \<Rightarrow>
          (case MarshalBinary am of
             Inl m \<Rightarrow> (Returns (Some (ErrMarshaling m)), c)
           | Inr b \<Rightarrow> TCPConn_send globalOrder b c))"

text \<open>
  The read loop of \<open>receive\<close>: every \<open>Read\<close> is given the whole slice \<open>b\<close> of
  \<open>total\<close> bytes (\<open>tot\<close> here).
\<close>

function receive_loop ::
  "Size \<Rightarrow> Size \<Rightarrow> byte list \<Rightarrow> netConn \<Rightarrow> (error + Size \<times> byte list) outcome \<times> netConn" where
  "receive_loop tot rd buffer k =
     (if rd < tot then
        (case netConn_Read (unat tot) k of
           (IoErr err, k1) \<Rightarrow> (Returns (Inl (handleError err)), k1)
         | (IoBlock, k1) \<Rightarrow> (Blocks, k1)
         | (IoOk bs, k1) \<Rightarrow> receive_loop tot (rd + of_nat (length bs)) (buffer @ bs) k1)
      else (Returns (Inr (rd, buffer)), k))"
  by pat_completeness auto
termination
proof (relation "measure (\<lambda>(tot, rd, buffer, k). length (inbuf k))", goal_cases)
  case 1
  show ?case by simp
next
  case (2 tot rd buffer k r k1 bs)
  from 2(1) have "tot \<noteq> 0" by auto
  then have "0 < unat tot" by (simp add: unat_gt_0)
  with 2(2,3) show ?case
    by (auto simp: netConn_Read_def split: if_splits option.splits)
qed

definition TCPConn_receive :: "ByteOrder \<Rightarrow> TCPConn \<Rightarrow> (error + byte list) outcome \<times> TCPConn" where
  "TCPConn_receive globalOrder c =
     (case binary_Read globalOrder (conn c) of
        (IoErr err, k) \<Rightarrow> (Returns (Inl (handleError err)), c\<lparr>conn := k\<rparr>)
      | (IoBlock, k) \<Rightarrow> (Blocks, c\<lparr>conn := k\<rparr>)
      | (IoOk tot, k) \<Rightarrow>
          (case receive_loop tot 0 [] k of
             (Returns (Inr (rd, buffer)), k1) \<Rightarrow>
               (Returns (Inr buffer), addReadBytes (ucast rd) (c\<lparr>conn := k1\<rparr>))
           | (Returns (Inl err), k1) \<Rightarrow> (Returns (Inl err), c\<lparr>conn := k1\<rparr>)
           | (Blocks, k1) \<Rightarrow> (Blocks, c\<lparr>conn := k1\<rparr>)
           | (Panics m, k1) \<Rightarrow> (Panics m, c\<lparr>conn := k1\<rparr>)))"

text \<open>
  \<open>UnmarshalBinary\<close> is declared outside the shown files. What it does with a buffer
  is one of three things: it fills the packet, it returns an error (the packet's type
  tag as it then stands, and the error's message), or it panics.
\<close>

datatype ('t, 'b) unmarshalled =
    Decoded "('t, 'b) Packet"
  | DecodeError 't string
  | DecodePanic string

text \<open>
  The declarations \<open>Receive\<close> uses from outside the shown files: the empty packet,
  the decoder and the printing of a type tag.
\<close>

record ('t, 'b) decoding =
  EmptyApplicationMessage :: "('t, 'b) Packet"
  UnmarshalBinary :: "byte list \<Rightarrow> ('t, 'b) unmarshalled"
  MsgType_String :: "'t \<Rightarrow> string"

text \<open>
  The body of \<open>Receive\<close> without the deferred function. The sender address is the
  connection's remote end, as a TCP address.
\<close>

definition TCPConn_Receive_body ::
  "ByteOrder \<Rightarrow> ('t, 'b) decoding \<Rightarrow> Context \<Rightarrow> TCPConn
     \<Rightarrow> (('t, 'b) Packet \<times> error option) outcome \<times> TCPConn" where
  "TCPConn_Receive_body globalOrder d cx c =
     (case TCPConn_receive globalOrder c of
        (Returns (Inl err), c1) \<Rightarrow> (Returns (EmptyApplicationMessage d, Some err), c1)
      | (Blocks, c1) \<Rightarrow> (Blocks, c1)
      | (Panics m, c1) \<Rightarrow> (Panics m, c1)
      | (Returns (Inr buff), c1) \<Rightarrow>
          (case UnmarshalBinary d buff of
             DecodePanic m \<Rightarrow> (Panics m, c1)
           | DecodeError t m \<Rightarrow>
               (Returns (EmptyApplicationMessage d, Some (ErrUnmarshal (MsgType_String d t) m)), c1)
           | Decoded am \<Rightarrow>
               (Returns (am\<lparr>From := Some (NewAddress PlainTCP (TCPConn_Remote c1))\<rparr>, None), c1)))"

text \<open>
  \<open>Receive\<close>: the deferred function recovers a panic of the body and sets the two
  results.
\<close>

definition TCPConn_Receive ::
  "ByteOrder \<Rightarrow> ('t, 'b) decoding \<Rightarrow> Context \<Rightarrow> TCPConn
     \<Rightarrow> (('t, 'b) Packet \<times> error option) outcome \<times> TCPConn" where
  "TCPConn_Receive globalOrder d cx c =
     (case TCPConn_Receive_body globalOrder d cx c of
        (Panics m, c1) \<Rightarrow> (Returns (EmptyApplicationMessage d, Some (ErrReceived m)), c1)
      | (r, c1) \<Rightarrow> (r, c1))"

definition TCPConn_Close :: "TCPConn \<Rightarrow> error option \<times> TCPConn" where
  "TCPConn_Close c =
     (if closed c then (None, c)
      else (case closeErr (conn c) of
              Some err \<Rightarrow> (Some (handleError err), c\<lparr>closed := True\<rparr>)
            | None \<Rightarrow> (None, c\<lparr>closed := True\<rparr>)))"

subsection \<open>NewTCPConn and TCPHost\<close>

text \<open>
  The loop of \<open>NewTCPConn\<close>. \<open>dial i\<close> is what \<open>net.Dial\<close> answers in iteration
  \<open>i\<close>: an error (and no connection) or a connection. The loop's variables
  \<open>conn\<close> and \<open>err\<close> are its state.
\<close>

function NewTCPConn_loop ::
  "int \<Rightarrow> nat \<Rightarrow> (int \<Rightarrow> net_error + netConn) \<Rightarrow> int \<Rightarrow> netConn option \<Rightarrow> net_error option
     \<Rightarrow> netConn option \<times> net_error option \<times> event list" where
  "NewTCPConn_loop MaxRetry WaitRetry dial i cn err =
     (if i < MaxRetry then
        (case dial i of
           Inl e \<Rightarrow>
             (let (cn1, err1, evs) = NewTCPConn_loop MaxRetry WaitRetry dial (i + 1) None (Some e)
              in (cn1, err1, Attempt # Sleep WaitRetry # Sleep WaitRetry # evs))
         | Inr k \<Rightarrow> (Some k, None, [Attempt]))
      else (cn, err, []))"
  by pat_completeness auto
termination
  by (relation "measure (\<lambda>(m, ws, d, i, c, e). nat (m - i))") auto

definition NewTCPConn ::
  "int \<Rightarrow> nat \<Rightarrow> (int \<Rightarrow> net_error + netConn) \<Rightarrow> string
     \<Rightarrow> (error option \<times> TCPConn option) \<times> event list" where
  "NewTCPConn MaxRetry WaitRetry dial address =
     (case NewTCPConn_loop MaxRetry WaitRetry dial 0 None None of
        (None, err, evs) \<Rightarrow> ((Some (ErrCouldNotConnect address err), None), evs)
      | (Some k, err, evs) \<Rightarrow>
          ((map_option ErrRaw err,
            Some \<lparr>endpoint = address, conn = k, closed = False, bRx = 0, bTx = 0\<rparr>), evs))"

definition TCPHost_Connect ::
  "int \<Rightarrow> nat \<Rightarrow> (int \<Rightarrow> net_error + netConn) \<Rightarrow> Address
     \<Rightarrow> (error option \<times> TCPConn option) \<times> event list" where
  "TCPHost_Connect MaxRetry WaitRetry dial a =
     (case Address_ConnType a of
        PlainTCP \<Rightarrow> NewTCPConn MaxRetry WaitRetry dial (NetworkAddress a)
      | Local \<Rightarrow> ((Some (ErrCantHandle (Address_ConnType a)), None), []))"

subsection \<open>TCPListener\<close>

text \<open>
  A \<open>net.Listener\<close> is open or closed; closing a closed one is an error of the
  library.
\<close>

datatype lsock = LOpen | LClosed

definition lsock_Close :: "lsock \<Rightarrow> net_error option \<times> lsock" where
  "lsock_Close l =
     (case l of
        LOpen \<Rightarrow> (None, LClosed)
      | LClosed \<Rightarrow>
          (Some \<lparr>message = ''use of closed network connection'', isEOF = False,
                 netError = Some (False, False)\<rparr>, LClosed))"

record TCPListener =
  listener :: "lsock option"
  quit :: chan
  listening :: bool
  connType :: ConnType

definition NewTCPListener :: TCPListener where
  "NewTCPListener =
     \<lparr>listener = None, quit = ChanOpen, listening = False, connType = PlainTCP\<rparr>"

text \<open>
  The bind loop of \<open>listen\<close>. \<open>nl i\<close> is what \<open>net.Listen\<close> answers in iteration
  \<open>i\<close>. The first component is the error of an early return.
\<close>

function listen_loop ::
  "int \<Rightarrow> nat \<Rightarrow> (int \<Rightarrow> net_error option) \<Rightarrow> int \<Rightarrow> TCPListener
     \<Rightarrow> error option \<times> TCPListener \<times> event list" where
  "listen_loop MaxRetry WaitRetry nl i t =
     (if i < MaxRetry then
        (case nl i of
           None \<Rightarrow> (None, t\<lparr>TCPListener.listener := Some LOpen\<rparr>, [Attempt])
         | Some err \<Rightarrow>
             if i = MaxRetry - 1 then (Some (ErrOpeningListener err), t, [Attempt])
             else (let (r, t1, evs) = listen_loop MaxRetry WaitRetry nl (i + 1) t
                   in (r, t1, Attempt # Sleep WaitRetry # evs)))
      else (None, t, []))"
  by pat_completeness auto
termination
  by (relation "measure (\<lambda>(m, ws, nl, i, t). nat (m - i))") auto

text \<open>
  \<open>listen\<close> up to its accept loop: it sets the flag, makes a fresh \<open>quit\<close> channel
  and binds. With a listener it then stays in the accept loop (\<open>Blocks\<close>) until
  \<open>Stop\<close>; without one the call of \<open>Accept\<close> on the nil listener panics.
\<close>

definition TCPListener_listen ::
  "int \<Rightarrow> nat \<Rightarrow> (int \<Rightarrow> net_error option) \<Rightarrow> TCPListener
     \<Rightarrow> error option outcome \<times> TCPListener \<times> event list" where
  "TCPListener_listen MaxRetry WaitRetry nl t =
     (case listen_loop MaxRetry WaitRetry nl 0
             (t\<lparr>TCPListener.listening := True, TCPListener.quit := ChanOpen\<rparr>) of
        (Some err, t1, evs) \<Rightarrow> (Returns (Some err), t1, evs)
      | (None, t1, evs) \<Rightarrow>
          (case TCPListener.listener t1 of
             None \<Rightarrow> (Panics ''nil pointer dereference'', t1, evs)
           | Some l \<Rightarrow> (Blocks, t1, evs)))"

text \<open>
  The polling loop of \<open>Stop\<close>. \<open>acks\<close> is the number of 50 ms timeouts that pass
  before the accept loop's message on \<open>quitListener\<close> is there.
\<close>

fun Stop_loop :: "nat \<Rightarrow> TCPListener \<Rightarrow> error option outcome \<times> TCPListener" where
  "Stop_loop acks t =
     (case (case TCPListener.listener t of
              None \<Rightarrow> (None, t)
            | Some l \<Rightarrow> (case lsock_Close l of
                           (err, l1) \<Rightarrow> (err, t\<lparr>TCPListener.listener := Some l1\<rparr>))) of
        (Some err, t1) \<Rightarrow> (Returns (Some (ErrRaw err)), t1)
      | (None, t1) \<Rightarrow>
          (case acks of
             0 \<Rightarrow> (Returns None, t1)
           | Suc n \<Rightarrow> Stop_loop n t1))"

definition TCPListener_Stop :: "nat \<Rightarrow> TCPListener \<Rightarrow> error option outcome \<times> TCPListener" where
  "TCPListener_Stop acks t =
     (if \<not> TCPListener.listening t then (Returns None, t)
      else (case close_chan (TCPListener.quit t) of
              Panics m \<Rightarrow> (Panics m, t)
            | Blocks \<Rightarrow> (Blocks, t)
            | Returns c \<Rightarrow> Stop_loop acks (t\<lparr>TCPListener.quit := c\<rparr>)))"

definition TCPListener_IncomingType :: "TCPListener \<Rightarrow> ConnType" where
  "TCPListener_IncomingType t = connType t"

text \<open>
  The loops are unfolded by hand, one iteration at a time, where a proof needs it.
\<close>

declare LocalHost_Connect_loop.simps [simp del]
declare send_loop.simps [simp del]
declare receive_loop.simps [simp del]
declare NewTCPConn_loop.simps [simp del]
declare listen_loop.simps [simp del]
declare Stop_loop.simps [simp del]

section \<open>Properties of the queue and the registry\<close>

text \<open>The packets of an open queue come out oldest first.\<close>

lemma connQueue_Pop_open:
  "connQueue_Pop \<lparr>queue = p # ps, isClosed = False\<rparr> =
     (Returns (Inr p), \<lparr>queue = ps, isClosed = False\<rparr>)"
  by (simp add: connQueue_Pop_def)

lemma connQueue_Pop_Push_new:
  "connQueue_Pop (connQueue_Push p newConnQueue) = (Returns (Inr p), newConnQueue)"
  by (simp add: connQueue_Pop_def connQueue_Push_def newConnQueue_def)

text \<open>\<open>Pop\<close> has no way to answer \<open>ErrCanceled\<close>.\<close>

lemma connQueue_Pop_not_canceled: "fst (connQueue_Pop c) \<noteq> Returns (Inl ErrCanceled)"
  by (simp add: connQueue_Pop_def)

text \<open>
  The two directions of a connection have different uids, so the two endpoints are
  different keys of the queue map.
\<close>

lemma endpoints_differ:
  "\<lparr>endpoint.addr = l, uid = u\<rparr> \<noteq> \<lparr>endpoint.addr = r, uid = u + 1\<rparr>"
  by simp

text \<open>
  On a connection that \<open>Connect\<close> has just made, what one side sends is what the other
  side receives next: the type tag that \<open>TypeFromData\<close> gives and the body, with a
  pointer replaced by its value. The \<open>From\<close> field is unset.
\<close>

lemma local_send_receive:
  assumes "LocalContext.listening (ctx w) r = Some fn"
  shows "\<exists>out inc w2 w3 w4.
           LocalContext_Connect l r w = (Inr out, w2)
         \<and> goroutines w2 = goroutines w @ [(fn, inc)]
         \<and> LocalConn_Local out = l \<and> LocalConn_Remote out = r
         \<and> LocalConn_Local inc = r \<and> LocalConn_Remote inc = l
         \<and> LocalConn_Send tfd cx msg out w2 = (None, w3)
         \<and> LocalConn_Receive cx' inc w3 =
             (Returns (Inr \<lparr>MsgType = tfd (case msg of Ptr v \<Rightarrow> Val v | Val v \<Rightarrow> Val v),
                             Msg = (case msg of Ptr v \<Rightarrow> Val v | Val v \<Rightarrow> Val v),
                             From = None\<rparr>), w4)"
  using assms
  by (simp add: LocalContext_Connect_def newLocalConn_def Let_def LocalConn_Local_def
      LocalConn_Remote_def LocalConn_Send_def LocalContext_Send_def LocalConn_Receive_def
      connQueue_Pop_def connQueue_Push_def newConnQueue_def nth_append)

text \<open>
  The guard against listening twice is in \<open>bind\<close>: for a Local Address that is
  registered, creating a listener fails and changes nothing.
\<close>

lemma bind_refuses_listening_address:
  "LocalContext_IsListening a w \<Longrightarrow> Address_ConnType a = Local \<Longrightarrow>
     LocalListener_bind a ll w = (Some (ErrAlreadyListening a), ll, w)"
  by (simp add: LocalListener_bind_def)

text \<open>\<open>Listening\<close> stores the callback it is given, whatever was registered before.\<close>

lemma Listening_stores_callback:
  "LocalContext.listening (ctx (LocalContext_Listening a fn w)) a = Some fn"
  by (simp add: LocalContext_Listening_def)

section \<open>Properties of the TCP listener\<close>

text \<open>
  \<open>Stop\<close> never writes the \<open>listening\<close> flag, and after closing \<open>quit\<close> it never
  makes a new channel.
\<close>

lemma Stop_loop_keeps_flag_and_quit:
  "fst (Stop_loop acks t) = Returns e \<Longrightarrow>
     TCPListener.listening (snd (Stop_loop acks t)) = TCPListener.listening t
   \<and> TCPListener.quit (snd (Stop_loop acks t)) = TCPListener.quit t"
proof (induction acks arbitrary: t e)
  case 0
  then show ?case
    by (auto simp: Stop_loop.simps[of 0] lsock_Close_def split: option.splits lsock.splits)
next
  case (Suc n)
  then show ?case
    by (auto simp: Stop_loop.simps[of "Suc n"] lsock_Close_def split: option.splits lsock.splits)
qed

text \<open>
  So whenever a listener that is listening has been stopped, with or without an error
  from closing the socket, the next \<open>Stop\<close> closes the closed channel.
\<close>

lemma second_Stop_panics:
  assumes "TCPListener.listening t" and "TCPListener_Stop acks t = (Returns e, t1)"
  shows "TCPListener_Stop acks' t1 = (Panics ''close of closed channel'', t1)"
proof -
  from assms obtain c where c: "close_chan (TCPListener.quit t) = Returns c"
    and sl: "Stop_loop acks (t\<lparr>TCPListener.quit := c\<rparr>) = (Returns e, t1)"
    by (auto simp: TCPListener_Stop_def split: outcome.splits)
  from c have "c = ChanClosed"
    by (auto simp: close_chan_def split: chan.splits)
  with Stop_loop_keeps_flag_and_quit[of acks "t\<lparr>TCPListener.quit := c\<rparr>" e] sl assms(1)
  have "TCPListener.listening t1" and "TCPListener.quit t1 = ChanClosed"
    by auto
  then show ?thesis
    by (simp add: TCPListener_Stop_def close_chan_def)
qed

section \<open>Properties of the retry loops\<close>

text \<open>
  A loop that fails in every iteration from \<open>i\<close> on runs each of the remaining
  \<open>MaxRetry - i\<close> iterations, and ends with the error of the last one.
\<close>

lemma replicate_step:
  "i < (m::int) \<Longrightarrow> concat (replicate (nat (m - i)) xs) = xs @ concat (replicate (nat (m - (i + 1))) xs)"
proof -
  assume "i < m"
  then have "nat (m - i) = Suc (nat (m - (i + 1)))" by simp
  then show ?thesis by simp
qed

lemma LocalHost_Connect_loop_not_listening:
  "LocalContext.listening (ctx w) a = None \<Longrightarrow>
     LocalHost_Connect_loop m ws lh a i fe w =
       ((if i < m then Some (ErrNotListening (LocalHost.addr lh) a) else fe, None), w,
        concat (replicate (nat (m - i)) [Attempt, Sleep ws]))"
proof (induction m ws lh a i fe w rule: LocalHost_Connect_loop.induct)
  case (1 m ws lh a i fe w)
  show ?case
  proof (cases "i < m")
    case False
    then show ?thesis by (simp add: LocalHost_Connect_loop.simps[of m ws lh a i])
  next
    case True
    have c: "NewLocalConnWithContext (LocalHost.addr lh) a w = (Inl (ErrNotListening (LocalHost.addr lh) a), w)"
      using 1(2) by (simp add: NewLocalConnWithContext_def LocalContext_Connect_def)
    have ih: "LocalHost_Connect_loop m ws lh a (i + 1) (Some (ErrNotListening (LocalHost.addr lh) a)) w =
       ((if i + 1 < m then Some (ErrNotListening (LocalHost.addr lh) a) else Some (ErrNotListening (LocalHost.addr lh) a), None), w,
        concat (replicate (nat (m - (i + 1))) [Attempt, Sleep ws]))"
      using 1(1)[OF True c[symmetric] refl 1(2)] .
    show ?thesis
      using True c ih replicate_step[OF True, of "[Attempt, Sleep ws]"]
      by (simp add: LocalHost_Connect_loop.simps[of m ws lh a i])
  qed
qed

lemma NewTCPConn_loop_unreachable:
  "(\<forall>j. i \<le> j \<and> j < m \<longrightarrow> dial j = Inl (e j)) \<Longrightarrow>
     NewTCPConn_loop m ws dial i cn err =
       (if i < m then None else cn, if i < m then Some (e (m - 1)) else err,
        concat (replicate (nat (m - i)) [Attempt, Sleep ws, Sleep ws]))"
proof (induction m ws dial i cn err rule: NewTCPConn_loop.induct)
  case (1 m ws dial i cn err)
  show ?case
  proof (cases "i < m")
    case False
    then show ?thesis by (simp add: NewTCPConn_loop.simps[of m ws dial i])
  next
    case True
    from 1(2) True have d: "dial i = Inl (e i)" by simp
    from 1(2) have rest: "\<forall>j. i + 1 \<le> j \<and> j < m \<longrightarrow> dial j = Inl (e j)" by simp
    have ih: "NewTCPConn_loop m ws dial (i + 1) None (Some (e i)) =
       (if i + 1 < m then None else None, if i + 1 < m then Some (e (m - 1)) else Some (e i),
        concat (replicate (nat (m - (i + 1))) [Attempt, Sleep ws, Sleep ws]))"
      using 1(1)[OF True d rest] .
    have last: "\<not> i + 1 < m \<Longrightarrow> e i = e (m - 1)"
      using True by (auto simp: not_less intro: arg_cong[where f=e])
    show ?thesis
      using True d ih last replicate_step[OF True, of "[Attempt, Sleep ws, Sleep ws]"]
      by (simp add: NewTCPConn_loop.simps[of m ws dial i])
  qed
qed

section \<open>Properties of the chunked send\<close>

text \<open>
  The chunk loop, started with \<open>sent\<close> bytes gone and the rest of the payload in
  \<open>b\<close>, on a socket whose writes all succeed: it writes the rest in non-empty
  chunks of at most 1400 bytes, in order, and returns nil.
\<close>

lemma unat_maxChunkSize: "unat maxChunkSize = 1400"
  by (simp add: maxChunkSize_def)

lemma send_loop_all_written:
  "(\<forall>j \<ge> wcount k. wfail k j = None) \<Longrightarrow> unat packetSize = unat sent + length b \<Longrightarrow>
   \<exists>chunks. send_loop packetSize sent b k =
               (Returns None, k\<lparr>written := written k @ chunks, wcount := wcount k + length chunks\<rparr>)
            \<and> concat chunks = b
            \<and> (\<forall>ch \<in> set chunks. 0 < length ch \<and> length ch \<le> 1400)"
proof (induction packetSize sent b k rule: send_loop.induct)
  case (1 packetSize sent b k)
  show ?case
  proof (cases "sent < packetSize")
    case False
    then have "unat packetSize \<le> unat sent" by (simp add: word_le_nat_alt not_less)
    with 1(3) have "b = []" by simp
    with False have "send_loop packetSize sent b k =
        (Returns None, k\<lparr>written := written k @ [], wcount := wcount k + length ([] :: byte list list)\<rparr>)
        \<and> concat ([] :: byte list list) = b
        \<and> (\<forall>ch \<in> set ([] :: byte list list). 0 < length ch \<and> length ch \<le> 1400)"
      by (simp add: send_loop.simps[of packetSize sent])
    then show ?thesis by blast
  next
    case True
    define length0 where "length0 = packetSize - sent"
    define len where "len = (if maxChunkSize < length0 then maxChunkSize else length0)"
    have le: "sent \<le> packetSize" using True by simp
    have l0: "unat length0 = length b"
      using 1(3) le by (simp add: length0_def unat_sub)
    have len_val: "unat len = min (length b) 1400"
      using l0 by (auto simp: len_def word_less_nat_alt unat_maxChunkSize)
    have bpos: "0 < length b"
      using True 1(3) by (simp add: word_less_nat_alt)
    have lenpos: "0 < unat len" using len_val bpos by simp
    have nopanic: "\<not> length b < unat len" using len_val by simp
    define k1 where "k1 = k\<lparr>written := written k @ [take (unat len) b], wcount := wcount k + 1\<rparr>"
    have wr: "netConn_Write (take (unat len) b) k = (unat len, None, k1)"
      using 1(2) nopanic by (simp add: netConn_Write_def k1_def)
    have nofail1: "\<forall>j \<ge> wcount k1. wfail k1 j = None"
      using 1(2) by (simp add: k1_def)
    have noov: "unat sent + unat len \<le> unat packetSize"
      using 1(3) len_val by simp
    have "unat sent + unat len < 2 ^ LENGTH(32)"
      using noov unsigned_less[of packetSize, where 'a=nat] by (simp del: unsigned_less)
    then have sum: "unat (sent + len) = unat sent + unat len"
      by (rule unat_add_lem[THEN iffD1])
    have ofnat_len: "(of_nat (unat len) :: Size) = len" by simp
    have "unat packetSize = unat sent + unat len + length (drop (unat len) b)"
      using 1(3) len_val by (simp add: min_def)
    then have inv1: "unat packetSize = unat (sent + of_nat (unat len)) + length (drop (unat len) b)"
      by (simp only: ofnat_len sum)
    have ih: "\<exists>chunks. send_loop packetSize (sent + of_nat (unat len)) (drop (unat len) b) k1 =
               (Returns None, k1\<lparr>written := written k1 @ chunks, wcount := wcount k1 + length chunks\<rparr>)
            \<and> concat chunks = drop (unat len) b
            \<and> (\<forall>ch \<in> set chunks. 0 < length ch \<and> length ch \<le> 1400)"
      using 1(1)[OF True length0_def len_def nopanic wr[symmetric] refl refl nofail1 inv1] .
    then obtain chunks where
      sl: "send_loop packetSize (sent + of_nat (unat len)) (drop (unat len) b) k1 =
               (Returns None, k1\<lparr>written := written k1 @ chunks, wcount := wcount k1 + length chunks\<rparr>)"
      and cc: "concat chunks = drop (unat len) b"
      and bd: "\<forall>ch \<in> set chunks. 0 < length ch \<and> length ch \<le> 1400"
      by blast
    have step: "send_loop packetSize sent b k =
                  send_loop packetSize (sent + of_nat (unat len)) (drop (unat len) b) k1"
    proof -
      have lenfold: "(if maxChunkSize < packetSize - sent then maxChunkSize else packetSize - sent) = len"
        by (simp add: len_def length0_def)
      show ?thesis
        by (subst send_loop.simps)
           (simp only: Let_def lenfold True nopanic wr if_True if_False prod.case option.case)
    qed
    have "send_loop packetSize sent b k =
            (Returns None, k\<lparr>written := written k @ (take (unat len) b # chunks),
                               wcount := wcount k + length (take (unat len) b # chunks)\<rparr>)"
      using step sl by (simp add: k1_def)
    moreover have "concat (take (unat len) b # chunks) = b"
      using cc by simp
    moreover have "\<forall>ch \<in> set (take (unat len) b # chunks). 0 < length ch \<and> length ch \<le> 1400"
      using bd len_val lenpos by auto
    ultimately show ?thesis by blast
  qed
qed


text \<open>
  \<open>send\<close> touches the counter in one place, after the loop has returned nil.
\<close>

lemma TCPConn_send_counter:
  "bTx (snd (TCPConn_send globalOrder b c)) =
     (if fst (TCPConn_send globalOrder b c) = Returns None
      then bTx c + ucast (of_nat (length b) :: Size) else bTx c)"
  by (auto simp: TCPConn_send_def addWrittenBytes_def Let_def
      split: prod.splits option.splits outcome.splits)

lemma ucast_Size_of_nat:
  "n < 2 ^ 32 \<Longrightarrow> (ucast (of_nat n :: Size) :: 64 word) = of_nat n"
proof -
  assume "n < 2 ^ 32"
  then have "unat (of_nat n :: Size) = n"
    by (simp add: unat_of_nat)
  moreover have "(ucast (of_nat n :: Size) :: 64 word) = of_nat (unat (of_nat n :: Size))"
    by (simp only: of_nat_unat)
  ultimately show ?thesis
    by (simp only:)
qed

section \<open>Claims\<close>

text \<open>
  C1: for a connected pair of Conns A and B, what A sends with \<open>Send\<close> comes out of
  B's \<open>Receive\<close> with the same type tag and body and with \<open>from\<close> equal to
  \<open>A.Local()\<close>. On the virtual transport the last part does not hold. The spec's own
  scenario, evaluated: B listens, A connects, A sends \<open>ping\<close> with type tag 1. The
  accepted connection receives type tag 1 and \<open>ping\<close>, but its \<open>From\<close> is unset
  and not A's address: \<open>LocalConn.Send\<close> never assigns the field, while
  \<open>TCPConn.Receive\<close> does.
\<close>

theorem C1_local_from_unset:
  "(let w1 = LocalContext_Listening (NewLocalAddress ''B'') 7 (NewWorld :: (nat, string) world);
        (r, w2) = LocalContext_Connect (NewLocalAddress ''A'') (NewLocalAddress ''B'') w1
    in case r of
         Inl e \<Rightarrow> False
       | Inr out \<Rightarrow>
           (case goroutines w2 of
              [(fn, inc)] \<Rightarrow>
                fn = 7 \<and> LocalConn_Local out = NewLocalAddress ''A'' \<and>
                (let (e, w3) = LocalConn_Send (\<lambda>b. 1) Background (Val ''ping'') out w2;
                     (p, w4) = LocalConn_Receive Background inc w3
                 in e = None \<and>
                    p = Returns (Inr \<lparr>MsgType = 1, Msg = Val ''ping'', From = None\<rparr>) \<and>
                    p \<noteq> Returns (Inr \<lparr>MsgType = 1, Msg = Val ''ping'',
                                         From = Some (LocalConn_Local out)\<rparr>))
            | _ \<Rightarrow> False))"
  by (simp add: NewLocalAddress_def NewAddress_def LocalContext_Listening_def NewWorld_def
      NewLocalContext_def LocalContext_Connect_def newLocalConn_def Let_def LocalConn_Local_def
      LocalConn_Send_def LocalContext_Send_def LocalConn_Receive_def connQueue_Pop_def
      connQueue_Push_def newConnQueue_def)

text \<open>
  C2 as written: after \<open>Close\<close>, \<open>Pop\<close> still hands out the packets that were
  enqueued before the close, and reports \<open>ErrClosed\<close> only once the queue is empty.
  It fails: a queue that holds one packet and is then closed answers \<open>ErrClosed\<close> to
  the first \<open>Pop\<close>, and the packet stays in the queue.
\<close>

theorem C2_pending_not_drained_counterexample:
  "connQueue_Pop (connQueue_Close (connQueue_Push
       \<lparr>MsgType = (1::nat), Msg = Val ''ping'', From = None\<rparr> newConnQueue))
   = (Returns (Inl ErrClosed),
      \<lparr>queue = [\<lparr>MsgType = 1, Msg = Val ''ping'', From = None\<rparr>], isClosed = True\<rparr>)"
  by (simp add: connQueue_Pop_def connQueue_Close_def connQueue_Push_def newConnQueue_def)

text \<open>
  C2 as amended: for every connQueue, after \<open>Close\<close> every \<open>Pop\<close> returns
  \<open>ErrClosed\<close> at once, whether or not packets are pending; the pending packets are
  not handed out and the queue is left as it was, so the next \<open>Pop\<close> does the same.
\<close>

theorem C2_pop_after_close:
  "connQueue_Pop (connQueue_Close c) = (Returns (Inl ErrClosed), connQueue_Close c)"
  by (simp add: connQueue_Pop_def connQueue_Close_def)

text \<open>
  C3: \<open>TCPListener.Stop\<close> is idempotent: once \<open>Listen\<close> has been started and
  \<open>Stop\<close> has returned, a second \<open>Stop\<close> returns without error and without panic.
  The code does not do this. A new listener binds at the first attempt and enters its
  accept loop; the first \<open>Stop\<close> returns nil; the second \<open>Stop\<close> finds
  \<open>listening\<close> still true and closes the closed \<open>quit\<close> channel, which panics.
\<close>

theorem C3_second_Stop_panics:
  "(let (r0, t1, evs) = TCPListener_listen 10 100 (\<lambda>i. None) NewTCPListener;
        (r1, t2) = TCPListener_Stop 0 t1;
        (r2, t3) = TCPListener_Stop 0 t2
    in r0 = Blocks \<and> r1 = Returns None \<and> r2 = Panics ''close of closed channel'')"
  by (simp add: TCPListener_listen_def NewTCPListener_def TCPListener_Stop_def close_chan_def
      lsock_Close_def listen_loop.simps Stop_loop.simps)

text \<open>
  C4: once an Address is registered as listening in a LocalContext, a second attempt to
  register it fails with an error, and the first registration's callback is not
  silently replaced. The code does not do this. Two listeners are created for the
  Address B while nobody listens on it, so both binds succeed. The first \<open>Listen\<close>
  registers callback 1. The second \<open>Listen\<close> then reports no error and replaces
  callback 1 by callback 2: \<open>Listen\<close> calls \<open>LocalContext.Listening\<close> without the
  check that \<open>bind\<close> makes, and \<open>Listening\<close> itself stores whatever it is given.
  Stopping the first listener afterwards removes B from the registry although the
  second listener still counts itself as listening.
\<close>

theorem C4_second_Listen_replaces_callback:
  "(let (e1, ll1, w1) = NewLocalListenerWithContext (NewLocalAddress ''B'')
                          (NewWorld :: (nat, string) world);
        (e2, ll2, w2) = NewLocalListenerWithContext (NewLocalAddress ''B'') w1;
        (r1, ll1', w3) = LocalListener_Listen 1 ll1 w2;
        (r2, ll2', w4) = LocalListener_Listen 2 ll2 w3;
        (r3, ll1'', w5) = LocalListener_Stop ll1' w4
    in e1 = None \<and> e2 = None
     \<and> LocalContext_IsListening (NewLocalAddress ''B'') w3
     \<and> LocalContext.listening (ctx w3) (NewLocalAddress ''B'') = Some 1
     \<and> r2 = Blocks
     \<and> LocalContext.listening (ctx w4) (NewLocalAddress ''B'') = Some 2
     \<and> r3 = Returns None
     \<and> LocalListener_Listening ll2'
     \<and> \<not> LocalContext_IsListening (NewLocalAddress ''B'') w5)
   \<and> LocalContext.listening
       (ctx (LocalContext_Listening (NewLocalAddress ''B'') 2
              (LocalContext_Listening (NewLocalAddress ''B'') 1
                 (NewWorld :: (nat, string) world))))
       (NewLocalAddress ''B'') = Some 2"
  by (simp add: LocalContext_Listening_def NewLocalListenerWithContext_def LocalListener_bind_def
      LocalListener_Listen_def LocalListener_Stop_def LocalContext_StopListening_def
      LocalListener_Listening_def close_chan_def LocalContext_IsListening_def NewWorld_def
      NewLocalContext_def Address_ConnType_def NewLocalAddress_def NewAddress_def)

text \<open>
  C5 as written: with a context that is already cancelled, \<open>Receive\<close> returns
  \<open>ErrCanceled\<close> at once instead of blocking or handing out a queued packet. It
  fails: in the scenario of a fresh connection on which \<open>ping\<close> was sent, \<open>Receive\<close>
  with a cancelled context hands out the queued packet on the accepted side and waits
  on the other side, whose queue is empty.
\<close>

theorem C5_cancelled_receive_counterexample:
  "(let w1 = LocalContext_Listening (NewLocalAddress ''B'') 7 (NewWorld :: (nat, string) world);
        (r, w2) = LocalContext_Connect (NewLocalAddress ''A'') (NewLocalAddress ''B'') w1
    in case r of
         Inl e \<Rightarrow> False
       | Inr out \<Rightarrow>
           (let (e, w3) = LocalConn_Send (\<lambda>b. 1) Background (Val ''ping'') out w2
            in fst (LocalConn_Receive Cancelled (snd (hd (goroutines w3))) w3)
                 = Returns (Inr \<lparr>MsgType = 1, Msg = Val ''ping'', From = None\<rparr>)
             \<and> fst (LocalConn_Receive Cancelled out w3) = Blocks))"
  by (simp add: NewLocalAddress_def NewAddress_def LocalContext_Listening_def NewWorld_def
      NewLocalContext_def LocalContext_Connect_def newLocalConn_def Let_def
      LocalConn_Send_def LocalContext_Send_def LocalConn_Receive_def connQueue_Pop_def
      connQueue_Push_def newConnQueue_def)

text \<open>
  C5 as amended: \<open>Receive\<close> does not look at its context. For every Conn of either
  transport and every context, cancelled or not, \<open>Receive\<close> does exactly what it does
  with a live context; on the virtual transport it never returns \<open>ErrCanceled\<close>.
\<close>

theorem C5_receive_ignores_context:
  "LocalConn_Receive cx cc w = LocalConn_Receive Background cc w
   \<and> fst (LocalConn_Receive cx cc w) \<noteq> Returns (Inl ErrCanceled)
   \<and> TCPConn_Receive globalOrder d cx c = TCPConn_Receive globalOrder d Background c"
  by (simp add: LocalConn_Receive_def TCPConn_Receive_def TCPConn_Receive_body_def
      connQueue_Pop_def split: prod.splits)

text \<open>
  C6 as written: a socket \<open>Send\<close> of N bytes writes chunks of at most 1400 bytes
  until all N bytes are written, and adds the chunk size to \<open>Tx\<close> on each successful
  write. The last part fails: 1401 bytes are sent on a socket whose third write (the
  second chunk) fails with a broken pipe. The prefix and the first chunk of 1400 bytes
  have been written, and \<open>Tx\<close> is still 0.
\<close>

theorem C6_counter_not_per_chunk_counterexample:
  "(let c = \<lparr>endpoint = ''10.0.0.1:2000'',
             conn = \<lparr>written = [],
                      wfail = (\<lambda>k. if k = 2 then Some \<lparr>message = ''write: broken pipe'',
                                     isEOF = False, netError = Some (False, False)\<rparr> else None),
                      wcount = 0, inbuf = [], inerr = None, closeErr = None\<rparr>,
             closed = False, bRx = 0, bTx = 0\<rparr>;
        (r, c1) = TCPConn_send BigEndian (replicate 1401 0) c
    in r = Returns (Some ErrClosed)
     \<and> written (conn c1) = [[0, 0, 5, 121], replicate 1400 0]
     \<and> TCPConn_Tx c1 = 0)"
  by (simp add: TCPConn_send_def binary_Write_def netConn_Write_def PutSize_def Let_def
      send_loop.simps maxChunkSize_def handleError_def TCPConn_Tx_def drop_bit_eq_div)


text \<open>
  C6 as amended: for every socket \<open>Send\<close> of a payload of N bytes (N below
  \<open>2 ^ 32\<close>) on a connection whose writes succeed, the length prefix is written,
  then the payload in order in chunks of at most 1400 bytes each until all N bytes are
  written, and \<open>Tx\<close> is incremented once, by N, after the last chunk. A \<open>send\<close> that
  does not return nil leaves \<open>Tx\<close> as it was.
\<close>

theorem C6_send_chunks_and_counter:
  "(length b < 2 ^ 32 \<and> (\<forall>j \<ge> wcount (conn c). wfail (conn c) j = None) \<longrightarrow>
      (\<exists>chunks.
         TCPConn_send globalOrder b c =
           (Returns None,
            c\<lparr>conn := (conn c)\<lparr>written := written (conn c)
                                       @ PutSize globalOrder (of_nat (length b)) # chunks,
                                   wcount := wcount (conn c) + 1 + length chunks\<rparr>,
              bTx := bTx c + of_nat (length b)\<rparr>)
       \<and> concat chunks = b
       \<and> (\<forall>ch \<in> set chunks. 0 < length ch \<and> length ch \<le> 1400)))
   \<and> (fst (TCPConn_send globalOrder b c) \<noteq> Returns None \<longrightarrow>
        bTx (snd (TCPConn_send globalOrder b c)) = bTx c)"
proof (intro conjI impI)
  assume h: "length b < 2 ^ 32 \<and> (\<forall>j \<ge> wcount (conn c). wfail (conn c) j = None)"
  define packetSize where "packetSize = (of_nat (length b) :: Size)"
  define k where "k = (conn c)\<lparr>written := written (conn c) @ [PutSize globalOrder packetSize],
                               wcount := wcount (conn c) + 1\<rparr>"
  from h have bw: "binary_Write globalOrder packetSize (conn c) = (None, k)"
    by (simp add: binary_Write_def netConn_Write_def k_def)
  from h have nofail: "\<forall>j \<ge> wcount k. wfail k j = None"
    by (simp add: k_def)
  from h have "unat packetSize = length b"
    by (simp add: packetSize_def unat_of_nat)
  then have inv: "unat packetSize = unat (0 :: Size) + length b"
    by simp
  from send_loop_all_written[OF nofail inv] obtain chunks where
    sl: "send_loop packetSize 0 b k =
           (Returns None, k\<lparr>written := written k @ chunks, wcount := wcount k + length chunks\<rparr>)"
    and cc: "concat chunks = b"
    and bd: "\<forall>ch \<in> set chunks. 0 < length ch \<and> length ch \<le> 1400"
    by blast
  from h have uc: "(ucast packetSize :: 64 word) = of_nat (length b)"
    by (simp add: packetSize_def ucast_Size_of_nat)
  have "TCPConn_send globalOrder b c =
           (Returns None,
            c\<lparr>conn := (conn c)\<lparr>written := written (conn c)
                                       @ PutSize globalOrder (of_nat (length b)) # chunks,
                                   wcount := wcount (conn c) + 1 + length chunks\<rparr>,
              bTx := bTx c + of_nat (length b)\<rparr>)"
    using bw sl uc
    by (simp add: TCPConn_send_def Let_def packetSize_def[symmetric] addWrittenBytes_def k_def)
  with cc bd show "\<exists>chunks.
         TCPConn_send globalOrder b c =
           (Returns None,
            c\<lparr>conn := (conn c)\<lparr>written := written (conn c)
                                       @ PutSize globalOrder (of_nat (length b)) # chunks,
                                   wcount := wcount (conn c) + 1 + length chunks\<rparr>,
              bTx := bTx c + of_nat (length b)\<rparr>)
       \<and> concat chunks = b
       \<and> (\<forall>ch \<in> set chunks. 0 < length ch \<and> length ch \<le> 1400)"
    by blast
next
  assume "fst (TCPConn_send globalOrder b c) \<noteq> Returns None"
  then show "bTx (snd (TCPConn_send globalOrder b c)) = bTx c"
    by (simp add: TCPConn_send_counter)
qed

theorem C6_send_chunks_and_counter_witness:
  "(let b = replicate 1401 (0::byte);
        good = \<lparr>endpoint = ''10.0.0.1:2000'',
                conn = \<lparr>written = [], wfail = (\<lambda>k. None), wcount = 0, inbuf = [],
                         inerr = None, closeErr = None\<rparr>,
                closed = False, bRx = 0, bTx = 0\<rparr>;
        bad = \<lparr>endpoint = ''10.0.0.1:2000'',
               conn = \<lparr>written = [],
                        wfail = (\<lambda>k. if k = 2 then Some \<lparr>message = ''write: broken pipe'',
                                       isEOF = False, netError = Some (False, False)\<rparr> else None),
                        wcount = 0, inbuf = [], inerr = None, closeErr = None\<rparr>,
               closed = False, bRx = 0, bTx = 0\<rparr>
    in (length b < 2 ^ 32 \<and> (\<forall>j \<ge> wcount (conn good). wfail (conn good) j = None))
     \<and> (\<exists>chunks.
           TCPConn_send BigEndian b good =
             (Returns None,
              good\<lparr>conn := (conn good)\<lparr>written := written (conn good)
                                             @ PutSize BigEndian (of_nat (length b)) # chunks,
                                         wcount := wcount (conn good) + 1 + length chunks\<rparr>,
                   bTx := bTx good + of_nat (length b)\<rparr>)
         \<and> concat chunks = b
         \<and> (\<forall>ch \<in> set chunks. 0 < length ch \<and> length ch \<le> 1400))
     \<and> fst (TCPConn_send BigEndian b bad) \<noteq> Returns None
     \<and> bTx (snd (TCPConn_send BigEndian b bad)) = bTx bad)"
proof -
  let ?b = "replicate 1401 (0::byte)"
  let ?good = "\<lparr>endpoint = ''10.0.0.1:2000'',
                conn = \<lparr>written = [], wfail = (\<lambda>k. None), wcount = 0, inbuf = [],
                         inerr = None, closeErr = None\<rparr>,
                closed = False, bRx = 0, bTx = 0\<rparr>"
  let ?bad = "\<lparr>endpoint = ''10.0.0.1:2000'',
               conn = \<lparr>written = [],
                        wfail = (\<lambda>k. if k = 2 then Some \<lparr>message = ''write: broken pipe'',
                                       isEOF = False, netError = Some (False, False)\<rparr> else None),
                        wcount = 0, inbuf = [], inerr = None, closeErr = None\<rparr>,
               closed = False, bRx = 0, bTx = 0\<rparr>"
  have h1: "length ?b < 2 ^ 32 \<and> (\<forall>j \<ge> wcount (conn ?good). wfail (conn ?good) j = None)"
    by simp
  have h2: "fst (TCPConn_send BigEndian ?b ?bad) \<noteq> Returns None"
    by (simp add: TCPConn_send_def binary_Write_def netConn_Write_def PutSize_def Let_def
        send_loop.simps maxChunkSize_def handleError_def)
  show ?thesis
    unfolding Let_def
    using C6_send_chunks_and_counter[where b = "?b" and c = "?good" and globalOrder = BigEndian]
          C6_send_chunks_and_counter[where b = "?b" and c = "?bad" and globalOrder = BigEndian]
          h1 h2
    by blast
qed

text \<open>
  C7 as written: to an Address that is not listening (virtual) or unreachable (socket),
  \<open>Host.Connect\<close> makes exactly the configured number of attempts, with at least the
  configured delay between them, and returns the error observed on the final attempt.
  The last part fails on the socket transport: with two refused dials \<open>TCPHost.Connect\<close>
  returns a could-not-connect error built from the address and the last dial error,
  not the dial error itself.
\<close>

theorem C7_tcp_error_wrapped_counterexample:
  "fst (TCPHost_Connect 2 100
          (\<lambda>i. Inl \<lparr>message = ''connection refused'', isEOF = False, netError = Some (False, False)\<rparr>)
          (NewAddress PlainTCP ''127.0.0.1:2000''))
     = (Some (ErrCouldNotConnect ''127.0.0.1:2000''
               (Some \<lparr>message = ''connection refused'', isEOF = False,
                      netError = Some (False, False)\<rparr>)), None)
   \<and> fst (fst (TCPHost_Connect 2 100
          (\<lambda>i. Inl \<lparr>message = ''connection refused'', isEOF = False, netError = Some (False, False)\<rparr>)
          (NewAddress PlainTCP ''127.0.0.1:2000'')))
     \<noteq> Some (ErrRaw \<lparr>message = ''connection refused'', isEOF = False,
                       netError = Some (False, False)\<rparr>)"
  by (simp add: TCPHost_Connect_def NewTCPConn_def NewTCPConn_loop.simps Address_ConnType_def
      NewAddress_def NetworkAddress_def)

text \<open>
  C7 as amended: to a Local Address that is not listening, \<open>LocalHost.Connect\<close> makes
  exactly \<open>MaxRetryConnect\<close> attempts, sleeps \<open>WaitRetry\<close> after each, leaves the
  context unchanged and returns the error of the final attempt. To a TCP Address on
  which every dial fails, \<open>TCPHost.Connect\<close> makes exactly \<open>MaxRetry\<close> attempts,
  sleeps twice \<open>WaitRetry\<close> after each, and returns the error
  \<open>Could not connect to <address>: <error of the final attempt>\<close>. Both for a
  positive number of attempts.
\<close>

theorem C7_retry:
  "(0 < MaxRetryConnect \<and> Address_ConnType a = Local \<and> \<not> LocalContext_IsListening a w \<longrightarrow>
      LocalHost_Connect MaxRetryConnect WaitRetry lh a w =
        ((Some (ErrNotListening (LocalHost.addr lh) a), None), w,
         concat (replicate (nat MaxRetryConnect) [Attempt, Sleep WaitRetry])))
   \<and> (0 < MaxRetry \<and> Address_ConnType b = PlainTCP
        \<and> (\<forall>i. 0 \<le> i \<and> i < MaxRetry \<longrightarrow> dial i = Inl (e i)) \<longrightarrow>
      TCPHost_Connect MaxRetry WaitRetry dial b =
        ((Some (ErrCouldNotConnect (NetworkAddress b) (Some (e (MaxRetry - 1)))), None),
         concat (replicate (nat MaxRetry) [Attempt, Sleep WaitRetry, Sleep WaitRetry])))"
proof (intro conjI impI)
  assume h: "0 < MaxRetryConnect \<and> Address_ConnType a = Local \<and> \<not> LocalContext_IsListening a w"
  then have "LocalContext.listening (ctx w) a = None"
    by (simp add: LocalContext_IsListening_def)
  from LocalHost_Connect_loop_not_listening[OF this, of MaxRetryConnect WaitRetry lh 0 None] h
  show "LocalHost_Connect MaxRetryConnect WaitRetry lh a w =
        ((Some (ErrNotListening (LocalHost.addr lh) a), None), w,
         concat (replicate (nat MaxRetryConnect) [Attempt, Sleep WaitRetry]))"
    by (simp add: LocalHost_Connect_def)
next
  assume h: "0 < MaxRetry \<and> Address_ConnType b = PlainTCP
        \<and> (\<forall>i. 0 \<le> i \<and> i < MaxRetry \<longrightarrow> dial i = Inl (e i))"
  from NewTCPConn_loop_unreachable[of 0 MaxRetry dial e WaitRetry None None] h
  show "TCPHost_Connect MaxRetry WaitRetry dial b =
        ((Some (ErrCouldNotConnect (NetworkAddress b) (Some (e (MaxRetry - 1)))), None),
         concat (replicate (nat MaxRetry) [Attempt, Sleep WaitRetry, Sleep WaitRetry]))"
    by (simp add: TCPHost_Connect_def NewTCPConn_def)
qed


theorem C7_retry_witness:
  "(let a = NewLocalAddress ''B'';
        w = (NewWorld :: (nat, string) world);
        lh = \<lparr>LocalHost.addr = NewLocalAddress ''A'',
               listener = \<lparr>LocalListener.addr = NewLocalAddress ''A'', listening = False,
                            quit = ChanOpen\<rparr>\<rparr>;
        b = NewAddress PlainTCP ''127.0.0.1:2000'';
        refused = \<lparr>message = ''connection refused'', isEOF = False,
                    netError = Some (False, False)\<rparr>
    in (0::int) < 3 \<and> Address_ConnType a = Local \<and> \<not> LocalContext_IsListening a w
     \<and> LocalHost_Connect 3 100 lh a w =
         ((Some (ErrNotListening (NewLocalAddress ''A'') a), None), w,
          [Attempt, Sleep 100, Attempt, Sleep 100, Attempt, Sleep 100])
     \<and> (0::int) < 2 \<and> Address_ConnType b = PlainTCP
     \<and> (\<forall>i. 0 \<le> i \<and> i < (2::int) \<longrightarrow> (\<lambda>i. Inl refused :: net_error + netConn) i = Inl refused)
     \<and> TCPHost_Connect 2 100 (\<lambda>i. Inl refused) b =
         ((Some (ErrCouldNotConnect ''127.0.0.1:2000'' (Some refused)), None),
          [Attempt, Sleep 100, Sleep 100, Attempt, Sleep 100, Sleep 100]))"
  using C7_retry
     [where MaxRetryConnect = 3 and a = "NewLocalAddress ''B''"
        and w = "NewWorld :: (nat, string) world" and WaitRetry = 100
        and lh = "\<lparr>LocalHost.addr = NewLocalAddress ''A'',
                    listener = \<lparr>LocalListener.addr = NewLocalAddress ''A'', listening = False,
                                 quit = ChanOpen\<rparr>\<rparr>"
        and MaxRetry = 2 and b = "NewAddress PlainTCP ''127.0.0.1:2000''"
        and dial = "\<lambda>i. Inl \<lparr>message = ''connection refused'', isEOF = False,
                                netError = Some (False, False)\<rparr>"
        and e = "\<lambda>i. \<lparr>message = ''connection refused'', isEOF = False,
                         netError = Some (False, False)\<rparr>"]
  by (simp add: Let_def Address_ConnType_def NewLocalAddress_def NewAddress_def
      LocalContext_IsListening_def NewWorld_def NewLocalContext_def NetworkAddress_def
      eval_nat_numeral)

text \<open>
  C8: for every LocalContext and Addresses \<open>local\<close> and \<open>remote\<close> where \<open>remote\<close> is
  not registered as listening, \<open>LocalContext.Connect\<close> returns the not-listening
  error, in its one and only attempt, and leaves everything as it was: the uid
  counter, the queue map, the store of queues, and the goroutines (no accept callback
  is started).
\<close>

theorem C8_connect_not_listening:
  "\<not> LocalContext_IsListening r w \<Longrightarrow>
     LocalContext_Connect l r w = (Inl (ErrNotListening l r), w)"
  by (simp add: LocalContext_Connect_def LocalContext_IsListening_def)

theorem C8_connect_not_listening_witness:
  "\<not> LocalContext_IsListening (NewLocalAddress ''B'') (NewWorld :: (nat, string) world)
   \<and> LocalContext_Connect (NewLocalAddress ''A'') (NewLocalAddress ''B'')
        (NewWorld :: (nat, string) world)
      = (Inl (ErrNotListening (NewLocalAddress ''A'') (NewLocalAddress ''B'')), NewWorld)"
  using C8_connect_not_listening
          [of "NewLocalAddress ''B''" "NewWorld :: (nat, string) world" "NewLocalAddress ''A''"]
  by (simp add: LocalContext_IsListening_def NewWorld_def NewLocalContext_def)

text \<open>
  C9: a panic raised while \<open>TCPConn.Receive\<close> decodes the received buffer is caught
  and turned into a returned receive error together with the empty packet; it never
  reaches the caller as a panic. More than that: no call of \<open>Receive\<close> panics.
\<close>

theorem C9_decode_panic_recovered:
  "(\<forall>m'. fst (TCPConn_Receive globalOrder d cx c) \<noteq> Panics m')
   \<and> (TCPConn_receive globalOrder c = (Returns (Inr buff), c1)
        \<and> UnmarshalBinary d buff = DecodePanic m
      \<longrightarrow> TCPConn_Receive globalOrder d cx c
            = (Returns (EmptyApplicationMessage d, Some (ErrReceived m)), c1))"
  by (auto simp: TCPConn_Receive_def TCPConn_Receive_body_def
      split: prod.splits outcome.splits sum.splits unmarshalled.splits)

theorem C9_decode_panic_recovered_witness:
  "(let k = \<lparr>written = [], wfail = (\<lambda>k. None), wcount = 0,
             inbuf = [0, 0, 0, 2, 104, 105], inerr = None, closeErr = None\<rparr>;
        c = \<lparr>endpoint = ''10.0.0.1:2000'', conn = k, closed = False, bRx = 0, bTx = 0\<rparr>;
        d = \<lparr>EmptyApplicationMessage = \<lparr>MsgType = (0::nat), Msg = Val (''''::string), From = None\<rparr>,
             UnmarshalBinary = (\<lambda>buff. DecodePanic ''index out of range''),
             MsgType_String = (\<lambda>t. ''type'')\<rparr>
    in TCPConn_receive BigEndian c =
         (Returns (Inr [104, 105]), c\<lparr>conn := k\<lparr>inbuf := []\<rparr>, bRx := 2\<rparr>)
     \<and> UnmarshalBinary d [104, 105] = DecodePanic ''index out of range''
     \<and> TCPConn_Receive BigEndian d Background c =
         (Returns (EmptyApplicationMessage d, Some (ErrReceived ''index out of range'')),
          c\<lparr>conn := k\<lparr>inbuf := []\<rparr>, bRx := 2\<rparr>))"
  using C9_decode_panic_recovered
     [of BigEndian
         "\<lparr>EmptyApplicationMessage = \<lparr>MsgType = (0::nat), Msg = Val (''''::string), From = None\<rparr>,
             UnmarshalBinary = (\<lambda>buff. DecodePanic ''index out of range''),
             MsgType_String = (\<lambda>t. ''type'')\<rparr>"
         Background
         "\<lparr>endpoint = ''10.0.0.1:2000'', conn = \<lparr>written = [], wfail = (\<lambda>k. None), wcount = 0,
             inbuf = [0, 0, 0, 2, 104, 105], inerr = None, closeErr = None\<rparr>, closed = False, bRx = 0, bTx = 0\<rparr>"
         "[104, 105]"
         "\<lparr>endpoint = ''10.0.0.1:2000'', conn = \<lparr>written = [], wfail = (\<lambda>k. None), wcount = 0,
             inbuf = [], inerr = None, closeErr = None\<rparr>, closed = False, bRx = 2, bTx = 0\<rparr>"
         "''index out of range''"]
  by (simp add: Let_def TCPConn_receive_def binary_Read_def GetSize_def receive_loop.simps
      netConn_Read_def addReadBytes_def)

text \<open>
  C10: for every Address whose connection type is not \<open>Local\<close>, the virtual transport
  refuses it at once. \<open>LocalHost.Connect\<close> returns its error with no attempt and no
  sleep, and the state untouched; creating a \<open>LocalListener\<close> (\<open>bind\<close>) returns the
  wrong-address-type error, and neither the listener nor the registry changes.
\<close>

theorem C10_non_local_address_refused:
  "Address_ConnType a \<noteq> Local \<Longrightarrow>
     LocalHost_Connect MaxRetryConnect WaitRetry lh a w = ((Some ErrNonLocalAddress, None), w, [])
   \<and> LocalListener_bind a ll w = (Some ErrWrongAddressType, ll, w)
   \<and> fst (NewLocalListenerWithContext a w) = Some ErrWrongAddressType
   \<and> snd (snd (NewLocalListenerWithContext a w)) = w"
  by (simp add: LocalHost_Connect_def LocalListener_bind_def NewLocalListenerWithContext_def)

theorem C10_non_local_address_refused_witness:
  "(let a = NewAddress PlainTCP ''127.0.0.1:2000'';
        w = LocalContext_Listening a 1 (NewWorld :: (nat, string) world);
        lh = \<lparr>LocalHost.addr = NewLocalAddress ''A'',
               listener = \<lparr>LocalListener.addr = NewLocalAddress ''A'', listening = False,
                            quit = ChanOpen\<rparr>\<rparr>
    in Address_ConnType a \<noteq> Local
     \<and> LocalHost_Connect 5 100 lh a w = ((Some ErrNonLocalAddress, None), w, [])
     \<and> NewLocalListenerWithContext a w =
         (Some ErrWrongAddressType,
          \<lparr>LocalListener.addr = Address_zero, listening = False, quit = ChanOpen\<rparr>, w))"
  using C10_non_local_address_refused
          [of "NewAddress PlainTCP ''127.0.0.1:2000''" 5 100
              "\<lparr>LocalHost.addr = NewLocalAddress ''A'',
                 listener = \<lparr>LocalListener.addr = NewLocalAddress ''A'', listening = False,
                              quit = ChanOpen\<rparr>\<rparr>"
              "LocalContext_Listening (NewAddress PlainTCP ''127.0.0.1:2000'') 1
                 (NewWorld :: (nat, string) world)"
              "\<lparr>LocalListener.addr = Address_zero, listening = False, quit = ChanOpen\<rparr>"]
  by (simp add: Let_def Address_ConnType_def NewAddress_def NewLocalListenerWithContext_def
      LocalListener_bind_def)

end
